theory Spec2Isabelle
  imports Complex_Main
begin

section \<open>Shared vocabulary\<close>

text \<open>
  Python exceptions that the modelled code can meet. \<open>BackendError\<close> stands for whatever
  a Keras model raises at prediction time (shape mismatch, backend failure);
  \<open>RuntimeError\<close> stands for an abnormal end of a \<open>time.sleep\<close> that is not caused by
  its argument. All of them are subclasses of \<open>Exception\<close>.
\<close>

datatype py_error = ValueError | ZeroDivisionError | IndexError | BackendError | RuntimeError

text \<open>Python's \<open>str\<close> on an integer, used by the f-strings of the handlers.\<close>

definition digit_char :: "nat \<Rightarrow> char" where
  "digit_char n = char_of (48 + n)"

function str_nat :: "nat \<Rightarrow> string" where
  "str_nat n = (if n < 10 then [digit_char n] else str_nat (n div 10) @ [digit_char (n mod 10)])"
  by pat_completeness auto
termination
  by (relation "measure id") auto

declare str_nat.simps [simp del]

definition str_int :: "int \<Rightarrow> string" where
  "str_int i = (if i < 0 then CHR ''-'' # str_nat (nat (- i)) else str_nat (nat i))"

section \<open>cc.py, first script: the rover's speed handler\<close>

text \<open>
  The rover script keeps the global \<open>motor_speed\<close> and two PWM channels \<open>pwm_a\<close>,
  \<open>pwm_b\<close>. \<open>ChangeDutyCycle\<close> of RPi.GPIO accepts a duty cycle between 0 and 100
  and raises \<open>ValueError\<close> otherwise.
\<close>

record rover =
  motor_speed :: int
  pwm_a :: int
  pwm_b :: int

definition ChangeDutyCycle :: "int \<Rightarrow> py_error + int" where
  "ChangeDutyCycle dc = (if dc < 0 \<or> 100 < dc then Inl ValueError else Inr dc)"

text \<open>
  \<^verbatim>\<open>def set_motor_speed(speed): pwm_a.ChangeDutyCycle(speed); pwm_b.ChangeDutyCycle(speed)\<close>
\<close>

definition set_motor_speed :: "int \<Rightarrow> rover \<Rightarrow> py_error + rover" where
  "set_motor_speed speed r =
     (case ChangeDutyCycle speed of
        Inl e \<Rightarrow> Inl e
      | Inr a \<Rightarrow>
          (case ChangeDutyCycle speed of
             Inl e \<Rightarrow> Inl e
           | Inr b \<Rightarrow> Inr (r\<lparr>pwm_a := a, pwm_b := b\<rparr>)))"

text \<open>
  \<^verbatim>\<open>motor_speed = max(0, min(100, speed)); set_motor_speed(motor_speed);
  return f"Speed set to {motor_speed}%"\<close>
  The global is assigned before the PWM calls, so it keeps its new value even if they raised.
\<close>

definition set_speed :: "int \<Rightarrow> rover \<Rightarrow> (py_error + string) \<times> rover" where
  "set_speed speed r =
     (let r1 = r\<lparr>motor_speed := max 0 (min 100 speed)\<rparr>
      in case set_motor_speed (motor_speed r1) r1 of
           Inl e \<Rightarrow> (Inl e, r1)
         | Inr r2 \<Rightarrow> (Inr (''Speed set to '' @ str_int (motor_speed r2) @ ''%''), r2))"

section \<open>raspi_smart_sprayer.py: the classifiers\<close>

text \<open>
  The source encodes the severity as the integers 0 to 3 (\<^verbatim>\<open>0=None, 1=Low, 2=Medium,
  3=High\<close>) and, in the second script of cc.py, as the strings \<^verbatim>\<open>"None"\<close>,
  \<^verbatim>\<open>"Low"\<close>, \<^verbatim>\<open>"Medium"\<close>, \<^verbatim>\<open>"High"\<close>; both are this enumeration.
\<close>

datatype severity = SevNone | Low | Medium | High

text \<open>
  A frame is an image array of shape (rows, columns, 3): a list of rows of three-channel
  pixels. \<open>shape0\<close> and \<open>shape1\<close> are \<^verbatim>\<open>frame.shape[0]\<close> and \<^verbatim>\<open>frame.shape[1]\<close>.
\<close>

type_synonym pixel = "nat \<times> nat \<times> nat"
type_synonym frame = "pixel list list"

definition shape0 :: "frame \<Rightarrow> nat" where
  "shape0 f = length f"

definition shape1 :: "frame \<Rightarrow> nat" where
  "shape1 f = (case f of [] \<Rightarrow> 0 | r # _ \<Rightarrow> length r)"

text \<open>\<^verbatim>\<open>cv2.inRange\<close>: a pixel is in the mask when every channel lies between the bounds,
  both inclusive.\<close>

fun inRange :: "pixel \<Rightarrow> pixel \<Rightarrow> pixel \<Rightarrow> bool" where
  "inRange (h, s, v) (lh, ls, lv) (uh, us, uv) =
     (lh \<le> h \<and> h \<le> uh \<and> ls \<le> s \<and> s \<le> us \<and> lv \<le> v \<and> v \<le> uv)"

definition lower :: pixel where "lower = (5, 50, 50)"
definition upper :: pixel where "upper = (30, 255, 255)"

definition count_nonzero :: "bool list list \<Rightarrow> nat" where
  "count_nonzero m = sum_list (map (\<lambda>row. length (filter id row)) m)"

text \<open>
  The mask of \<open>placeholder_detector\<close>: the frame converted pixel by pixel to HSV
  (\<^verbatim>\<open>cv2.cvtColor\<close>, an external collaborator, taken as the parameter \<open>cvtColor\<close>) and
  tested against the brown/yellow band.
\<close>

definition band_mask :: "(pixel \<Rightarrow> pixel) \<Rightarrow> frame \<Rightarrow> bool list list" where
  "band_mask cvtColor f = map (map (\<lambda>p. inRange (cvtColor p) lower upper)) f"

text \<open>\<^verbatim>\<open>cover = np.count_nonzero(mask) / (frame.shape[0]*frame.shape[1])\<close>, for a frame with at
  least one pixel.\<close>

definition cover :: "(pixel \<Rightarrow> pixel) \<Rightarrow> frame \<Rightarrow> real" where
  "cover cvtColor f = real (count_nonzero (band_mask cvtColor f)) / real (shape0 f * shape1 f)"

text \<open>
  A detection is the triple (label, confidence, severity). On a frame without pixels the
  call raises; here it is the \<open>ZeroDivisionError\<close> of the division. Confidences and the
  coverage are floats in the source and reals here.
\<close>

type_synonym detection = "string \<times> real \<times> severity"

definition placeholder_detector :: "(pixel \<Rightarrow> pixel) \<Rightarrow> frame \<Rightarrow> py_error + detection" where
  "placeholder_detector cvtColor f =
     (if shape0 f * shape1 f = 0 then Inl ZeroDivisionError
      else let c = cover cvtColor f in
        if c < 0.003 then Inr (''Healthy'', 1.0 - c, SevNone)
        else if c < 0.02 then Inr (''Possible Leaf Spot'', min 0.9 (c * 50), Low)
        else if c < 0.08 then Inr (''Infected: Leaf Spot'', min 0.95 (c * 10), Medium)
        else Inr (''Severe Infection'', min 0.99 (c * 5), High))"

text \<open>\<^verbatim>\<open>np.argmax\<close>: the index of the first maximal entry; it raises \<open>ValueError\<close> on an
  empty vector.\<close>

fun argmax :: "real list \<Rightarrow> nat" where
  "argmax [] = 0"
| "argmax [x] = 0"
| "argmax (x # xs) = (let j = argmax xs in if x < xs ! j then Suc j else 0)"

definition np_argmax :: "real list \<Rightarrow> py_error + nat" where
  "np_argmax probs = (if probs = [] then Inl ValueError else Inr (argmax probs))"

definition CLASS_NAMES :: "string list" where
  "CLASS_NAMES = [''Healthy'', ''Disease_A'', ''Disease_B'', ''Disease_C'']"

text \<open>
  \<open>keras_detector\<close>. The resizing, the colour conversion and \<^verbatim>\<open>keras_model.predict\<close>
  are external; together they are the parameter \<open>predict\<close>, which yields the probability
  vector or raises.
\<close>

type_synonym predictor = "frame \<Rightarrow> py_error + real list"

definition keras_detector :: "predictor \<Rightarrow> frame \<Rightarrow> py_error + detection" where
  "keras_detector predict f =
     (case predict f of
        Inl e \<Rightarrow> Inl e
      | Inr probs \<Rightarrow>
          (case np_argmax probs of
             Inl e \<Rightarrow> Inl e
           | Inr idx \<Rightarrow>
               (let label = (if idx < length CLASS_NAMES then CLASS_NAMES ! idx
                             else ''Class '' @ str_nat idx);
                    confidence = probs ! idx
                in if label = ''Healthy''
                   then Inr (label, confidence, if 0.6 < confidence then SevNone else Low)
                   else if confidence < 0.5 then Inr (label, confidence, Low)
                   else if confidence < 0.8 then Inr (label, confidence, Medium)
                   else Inr (label, confidence, High))))"

section \<open>raspi_smart_sprayer.py: the detect handler\<close>

text \<open>
  The handler answers with the 503 no-frame error or with a detection and the name of the
  detector used. The trace records which detectors ran and the failure that is printed.
\<close>

datatype detect_response =
    NoFrame
  | Detected string real severity string

datatype detect_event = KerasRan | KerasFailed py_error | PlaceholderRan

definition run_placeholder ::
  "(pixel \<Rightarrow> pixel) \<Rightarrow> frame \<Rightarrow> py_error + detect_response" where
  "run_placeholder cvtColor f =
     (case placeholder_detector cvtColor f of
        Inl e \<Rightarrow> Inl e
      | Inr (label, conf, sev) \<Rightarrow> Inr (Detected label conf sev ''Used placeholder detector.''))"

text \<open>
  \<open>latest_frame\<close> is what \<open>CameraThread.get_frame\<close> reads: \<open>None\<close> until the capture
  loop has stored a frame. \<open>keras_model\<close> is \<open>None\<close> when no model was loaded.
\<close>

definition detect ::
  "(pixel \<Rightarrow> pixel) \<Rightarrow> predictor option \<Rightarrow> frame option
     \<Rightarrow> (py_error + detect_response) \<times> detect_event list" where
  "detect cvtColor keras_model latest_frame =
     (case latest_frame of
        None \<Rightarrow> (Inr NoFrame, [])
      | Some f \<Rightarrow>
          (case keras_model of
             None \<Rightarrow> (run_placeholder cvtColor f, [PlaceholderRan])
           | Some predict \<Rightarrow>
               (case keras_detector predict f of
                  Inr (label, conf, sev) \<Rightarrow>
                    (Inr (Detected label conf sev ''Used Keras model.''), [KerasRan])
                | Inl e \<Rightarrow>
                    (run_placeholder cvtColor f, [KerasRan, KerasFailed e, PlaceholderRan]))))"

section \<open>raspi_smart_sprayer.py: pump control\<close>

text \<open>
  The pump hardware as the code sees it: the lock \<open>pump_lock\<close>, the electrical level of
  the pump pin (\<open>True\<close> is \<open>GPIO.HIGH\<close>) and the history of the levels written.
\<close>

record pump =
  lock_held :: bool
  level :: bool
  writes :: "bool list"

definition PUMP_ACTIVE_HIGH :: bool where
  "PUMP_ACTIVE_HIGH = True"

definition GPIO_output :: "bool \<Rightarrow> 'a pump_scheme \<Rightarrow> 'a pump_scheme" where
  "GPIO_output v p = p\<lparr>level := v, writes := writes p @ [v]\<rparr>"

text \<open>
  How a hold ends. \<open>time.sleep\<close> raises \<open>ValueError\<close> on a negative length; otherwise the
  hold ends the way the environment makes it end (\<open>Returns\<close>, or \<open>Raises\<close> for an abnormal
  end).
\<close>

datatype hold = Returns | Raises py_error

definition time_sleep :: "real \<Rightarrow> hold \<Rightarrow> hold" where
  "time_sleep duration env = (if duration < 0 then Raises ValueError else env)"

text \<open>
  \<open>activate_pump\<close>, run to completion by one thread. The result is \<open>None\<close> when the lock
  is held at the call: the \<^verbatim>\<open>with pump_lock\<close> blocks and the body does not start. With
  GPIO the body is \<^verbatim>\<open>try: output(active); sleep(duration) finally: output(inactive);
  return True\<close>: the \<^verbatim>\<open>return\<close> inside \<^verbatim>\<open>finally\<close> discards an exception of the hold.
  Without GPIO the body only sleeps and an exception leaves through the \<^verbatim>\<open>with\<close>, which
  releases the lock.
\<close>

definition activate_pump ::
  "bool \<Rightarrow> real \<Rightarrow> hold \<Rightarrow> pump \<Rightarrow> ((py_error + bool) \<times> pump) option" where
  "activate_pump USE_GPIO duration env p =
     (if lock_held p then None
      else let p1 = p\<lparr>lock_held := True\<rparr> in
        if USE_GPIO then
          (let p2 = GPIO_output (if PUMP_ACTIVE_HIGH then True else False) p1 in
           case time_sleep duration env of
             Returns \<Rightarrow>
               Some (Inr True,
                 (GPIO_output (if PUMP_ACTIVE_HIGH then False else True) p2)\<lparr>lock_held := False\<rparr>)
           | Raises e \<Rightarrow>
               Some (Inr True,
                 (GPIO_output (if PUMP_ACTIVE_HIGH then False else True) p2)\<lparr>lock_held := False\<rparr>))
        else
          (case time_sleep duration env of
             Returns \<Rightarrow> Some (Inr True, p1\<lparr>lock_held := False\<rparr>)
           | Raises e \<Rightarrow> Some (Inl e, p1\<lparr>lock_held := False\<rparr>)))"

subsection \<open>The spray handler and its threads\<close>

text \<open>
  The handler starts a thread on \<open>activate_pump\<close> and answers at once. The threads run
  interleaved; a thread is its program counter in \<open>activate_pump\<close> (the GPIO branch) and
  its duration:
  \<^item> \<open>AtLock\<close>: waiting to enter \<^verbatim>\<open>with pump_lock\<close>;
  \<^item> \<open>AtAssert\<close>: lock held, before the write of the active level;
  \<^item> \<open>AtSleep\<close>: pin active, in \<^verbatim>\<open>time.sleep(duration)\<close>;
  \<^item> \<open>AtFinally\<close>: the hold has ended (normally or by an exception), before the write of
    the inactive level;
  \<^item> \<open>AtRelease\<close>: pin inactive, before the lock is released;
  \<^item> \<open>Finished\<close>.
\<close>

datatype pc = AtLock | AtAssert | AtSleep | AtFinally | AtRelease | Finished

record sprayer = pump +
  threads :: "(pc \<times> real) list"
  responses :: "(string \<times> real) list"

definition PUMP_DEFAULT_DURATION :: real where
  "PUMP_DEFAULT_DURATION = 5.0"

text \<open>
  \<^verbatim>\<open>duration = float(body.get('duration', PUMP_DEFAULT_DURATION))\<close>; the thread is
  started and the answer is \<^verbatim>\<open>{'status':'activated', 'duration': duration}\<close>. The body is the
  duration it carries, if any.
\<close>

definition spray :: "real option \<Rightarrow> sprayer \<Rightarrow> (string \<times> real) \<times> sprayer" where
  "spray body s =
     (let duration = (case body of None \<Rightarrow> PUMP_DEFAULT_DURATION | Some d \<Rightarrow> d)
      in ((''activated'', duration), s\<lparr>threads := threads s @ [(AtLock, duration)]\<rparr>))"

text \<open>One atomic step of thread \<open>i\<close>; \<open>None\<close> when it cannot move (it waits for the lock,
  has finished, or does not exist).\<close>

definition thread_step :: "nat \<Rightarrow> sprayer \<Rightarrow> sprayer option" where
  "thread_step i s =
     (if length (threads s) \<le> i then None
      else case threads s ! i of
        (AtLock, d) \<Rightarrow>
          if lock_held s then None
          else Some (s\<lparr>lock_held := True, threads := (threads s)[i := (AtAssert, d)]\<rparr>)
      | (AtAssert, d) \<Rightarrow>
          Some ((GPIO_output (if PUMP_ACTIVE_HIGH then True else False) s)
                  \<lparr>threads := (threads s)[i := (AtSleep, d)]\<rparr>)
      | (AtSleep, d) \<Rightarrow>
          Some (s\<lparr>threads := (threads s)[i := (AtFinally, d)]\<rparr>)
      | (AtFinally, d) \<Rightarrow>
          Some ((GPIO_output (if PUMP_ACTIVE_HIGH then False else True) s)
                  \<lparr>threads := (threads s)[i := (AtRelease, d)]\<rparr>)
      | (AtRelease, d) \<Rightarrow>
          Some (s\<lparr>lock_held := False, threads := (threads s)[i := (Finished, d)]\<rparr>)
      | (Finished, d) \<Rightarrow> None)"

text \<open>A schedule is a list of events: a spray request arrives, or thread \<open>i\<close> is given the
  processor for one step.\<close>

datatype event = Request "real option" | Run nat

definition exec :: "sprayer \<Rightarrow> event \<Rightarrow> sprayer" where
  "exec s ev =
     (case ev of
        Request body \<Rightarrow>
          (case spray body s of (r, s') \<Rightarrow> s'\<lparr>responses := responses s' @ [r]\<rparr>)
      | Run i \<Rightarrow> (case thread_step i s of None \<Rightarrow> s | Some s' \<Rightarrow> s'))"

definition run :: "sprayer \<Rightarrow> event list \<Rightarrow> sprayer" where
  "run s evs = foldl exec s evs"

text \<open>The state after start-up: the GPIO initialisation has written the inactive level.\<close>

definition startup :: sprayer where
  "startup = \<lparr>lock_held = False, level = (if PUMP_ACTIVE_HIGH then False else True),
              writes = [if PUMP_ACTIVE_HIGH then False else True],
              threads = [], responses = []\<rparr>"

text \<open>The number of threads at a program counter, the number of threads inside a drive
  sequence (pin asserted, not yet deasserted), and the number of threads holding the lock.\<close>

definition count_pc :: "pc \<Rightarrow> (pc \<times> real) list \<Rightarrow> nat" where
  "count_pc c ts = length (filter (\<lambda>t. fst t = c) ts)"

definition driving :: "sprayer \<Rightarrow> nat" where
  "driving s = count_pc AtSleep (threads s) + count_pc AtFinally (threads s)"

definition holding :: "sprayer \<Rightarrow> nat" where
  "holding s = count_pc AtAssert (threads s) + driving s + count_pc AtRelease (threads s)"

section \<open>cc.py, first script: the rover's spray handler\<close>

text \<open>\<^verbatim>\<open>GPIO.output(PUMP_PIN, True); time.sleep(3); GPIO.output(PUMP_PIN, False)\<close>, without
  a \<^verbatim>\<open>finally\<close>.\<close>

definition rover_spray :: "hold \<Rightarrow> pump \<Rightarrow> (py_error + unit) \<times> pump" where
  "rover_spray env p =
     (let p1 = GPIO_output True p in
      case time_sleep 3 env of
        Raises e \<Rightarrow> (Inl e, p1)
      | Returns \<Rightarrow> (Inr (), GPIO_output False p1))"

section \<open>cc.py, second script: the plant-specific sprayer\<close>

definition PLANT_MODELS :: "(string \<times> string \<times> string list) list" where
  "PLANT_MODELS =
     [(''wheat'', ''models/wheat_model.h5'', [''Healthy'', ''Rust'', ''Blight'']),
      (''rice'', ''models/rice_model.h5'', [''Healthy'', ''Brown Spot'', ''Leaf Blast'']),
      (''cotton'', ''models/cotton_model.h5'', [''Healthy'', ''Wilt'', ''Leaf Curl''])]"

text \<open>
  The globals of the script and the session's plant. \<open>pump_threads\<close> holds the threads
  started on \<open>trigger_pump\<close>, each by its program counter: before the write of the active
  level, in the sleep, before the write of the inactive level, done.
\<close>

datatype tpc = TpAssert | TpSleep | TpDeassert | TpDone

record cc_state =
  plant :: "string option"
  current_frame :: "frame option"
  analysis_result :: "(string \<times> severity) option"
  models_cache :: "string \<rightharpoonup> predictor option"
  pump_threads :: "tpc list"

text \<open>
  \<open>load_plant_model\<close>: \<^verbatim>\<open>load_model\<close> of Keras is the parameter \<open>load_model\<close>; when it
  raises, \<open>None\<close> is cached.
\<close>

definition load_plant_model ::
  "(string \<Rightarrow> py_error + predictor) \<Rightarrow> string \<Rightarrow> (string \<rightharpoonup> predictor option)
     \<Rightarrow> (predictor option \<times> string list) \<times> (string \<rightharpoonup> predictor option)" where
  "load_plant_model load_model pl cache =
     (case map_of PLANT_MODELS pl of
        None \<Rightarrow> ((None, []), cache)
      | Some (path, classes) \<Rightarrow>
          (case cache pl of
             Some m \<Rightarrow> ((m, classes), cache)
           | None \<Rightarrow>
               (let m = (case load_model path of Inl e \<Rightarrow> None | Inr mdl \<Rightarrow> Some mdl)
                in ((m, classes), cache(pl \<mapsto> m)))))"

text \<open>
  \<open>analyze_frame\<close>. \<open>fmt\<close> is Python's \<^verbatim>\<open>:.2f\<close> formatting of the confidence.
  \<^verbatim>\<open>classes[idx]\<close> raises \<open>IndexError\<close> when the model has more outputs than the plant has
  classes. Nothing catches an exception of \<^verbatim>\<open>model.predict\<close>.
\<close>

definition analyze_frame ::
  "(string \<Rightarrow> py_error + predictor) \<Rightarrow> (real \<Rightarrow> string) \<Rightarrow> frame \<Rightarrow> string
     \<Rightarrow> (string \<rightharpoonup> predictor option)
     \<Rightarrow> (py_error + string \<times> severity) \<times> (string \<rightharpoonup> predictor option)" where
  "analyze_frame load_model fmt f pl cache =
     (case load_plant_model load_model pl cache of
        ((None, classes), cache') \<Rightarrow> (Inr (''Mock: Possible infection detected'', Medium), cache')
      | ((Some predict, classes), cache') \<Rightarrow>
          (case predict f of
             Inl e \<Rightarrow> (Inl e, cache')
           | Inr preds \<Rightarrow>
               (case np_argmax preds of
                  Inl e \<Rightarrow> (Inl e, cache')
                | Inr idx \<Rightarrow>
                    (let confidence = preds ! idx in
                     if length classes \<le> idx then (Inl IndexError, cache')
                     else
                       (let label = classes ! idx;
                            sev = (if label = ''Healthy'' then SevNone
                                   else if 0.8 < confidence then High
                                   else if 0.5 < confidence then Medium
                                   else Low)
                        in (Inr (label @ '' ('' @ fmt confidence @ '')'', sev), cache'))))))"

text \<open>
  \<open>trigger_pump\<close>: \<^verbatim>\<open>GPIO.output(pin, PUMP_ACTIVE_HIGH); time.sleep(5);
  GPIO.output(pin, not PUMP_ACTIVE_HIGH)\<close> on a Raspberry Pi, a print elsewhere.
\<close>

definition trigger_pump :: "bool \<Rightarrow> hold \<Rightarrow> pump \<Rightarrow> (py_error + unit) \<times> pump" where
  "trigger_pump RPI_ENV env p =
     (if RPI_ENV then
        (let p1 = GPIO_output PUMP_ACTIVE_HIGH p in
         case time_sleep 5 env of
           Raises e \<Rightarrow> (Inl e, p1)
         | Returns \<Rightarrow> (Inr (), GPIO_output (if PUMP_ACTIVE_HIGH then False else True) p1))
      else (Inr (), p))"

text \<open>One atomic step of the \<open>i\<close>-th \<open>trigger_pump\<close> thread on a Raspberry Pi. No lock
  is taken anywhere in the script.\<close>

definition tp_step :: "nat \<Rightarrow> tpc list \<times> pump \<Rightarrow> (tpc list \<times> pump) option" where
  "tp_step i tp =
     (case tp of (ts, p) \<Rightarrow>
        if length ts \<le> i then None
        else case ts ! i of
          TpAssert \<Rightarrow> Some (ts[i := TpSleep], GPIO_output PUMP_ACTIVE_HIGH p)
        | TpSleep \<Rightarrow> Some (ts[i := TpDeassert], p)
        | TpDeassert \<Rightarrow>
            Some (ts[i := TpDone], GPIO_output (if PUMP_ACTIVE_HIGH then False else True) p)
        | TpDone \<Rightarrow> None)"

definition tp_run :: "tpc list \<times> pump \<Rightarrow> nat list \<Rightarrow> tpc list \<times> pump" where
  "tp_run tp sched = foldl (\<lambda>tp i. case tp_step i tp of None \<Rightarrow> tp | Some tp' \<Rightarrow> tp') tp sched"

text \<open>
  \<open>check\<close>: \<^verbatim>\<open>if not plant or current_frame is None\<close> answers "No frame available" with
  severity "None"; \<^verbatim>\<open>not plant\<close> holds for a missing and for an empty plant name.
\<close>

definition no_frame_answer :: "string \<times> severity" where
  "no_frame_answer = (''No frame available'', SevNone)"

definition check ::
  "(string \<Rightarrow> py_error + predictor) \<Rightarrow> (real \<Rightarrow> string) \<Rightarrow> cc_state
     \<Rightarrow> (py_error + string \<times> severity) \<times> cc_state" where
  "check load_model fmt s =
     (case plant s of
        None \<Rightarrow> (Inr no_frame_answer, s)
      | Some pl \<Rightarrow>
          if pl = [] then (Inr no_frame_answer, s)
          else
            (case current_frame s of
               None \<Rightarrow> (Inr no_frame_answer, s)
             | Some f \<Rightarrow>
                 (case analyze_frame load_model fmt f pl (models_cache s) of
                    (Inl e, cache') \<Rightarrow> (Inl e, s\<lparr>models_cache := cache'\<rparr>)
                  | (Inr (result, sev), cache') \<Rightarrow>
                      (Inr (result, sev),
                       s\<lparr>models_cache := cache', analysis_result := Some (result, sev)\<rparr>))))"

text \<open>\<open>spray\<close> of the second script: gated by the stored analysis result.\<close>

definition cc_spray :: "cc_state \<Rightarrow> string \<times> cc_state" where
  "cc_spray s =
     (case analysis_result s of
        None \<Rightarrow> (''No analysis result yet'', s)
      | Some (result, sev) \<Rightarrow>
          if sev \<in> set [Medium, High]
          then (''Pump activated!'', s\<lparr>pump_threads := pump_threads s @ [TpAssert]\<rparr>)
          else (''Spray not needed.'', s))"

section \<open>Invariant of the interleaved sprayer, and example values\<close>

text \<open>
  What every reachable state of raspi_smart_sprayer.py satisfies: the lock is held by exactly
  the threads between acquiring and releasing it, the pin is active exactly while one thread
  is inside its drive sequence, every request was answered "activated" and started one thread.
\<close>

definition inv :: "sprayer \<Rightarrow> bool" where
  "inv s = (holding s = (if lock_held s then 1 else 0)
          \<and> driving s = (if level s = PUMP_ACTIVE_HIGH then 1 else 0)
          \<and> map fst (responses s) = replicate (length (responses s)) ''activated''
          \<and> length (threads s) = length (responses s))"

definition idle_pump :: pump where
  "idle_pump = \<lparr>lock_held = False, level = False, writes = [False]\<rparr>"

definition no_result :: cc_state where
  "no_result = \<lparr>plant = Some ''wheat'', current_frame = None, analysis_result = None,
                 models_cache = Map.empty, pump_threads = []\<rparr>"

definition always :: "real list \<Rightarrow> predictor" where
  "always probs = (\<lambda>f. Inr probs)"

section \<open>Properties\<close>

text \<open>
  C9: for every integer speed argument the speed handler stores exactly
  \<open>max 0 (min 100 speed)\<close> as the motor speed, the stored value lies in the range 0 to 100,
  the handler returns normally, and its message reports the clamped value and not the raw
  argument.
\<close>

theorem set_speed_clamps:
  "motor_speed (snd (set_speed speed r)) = max 0 (min 100 speed)
   \<and> 0 \<le> motor_speed (snd (set_speed speed r))
   \<and> motor_speed (snd (set_speed speed r)) \<le> 100
   \<and> fst (set_speed speed r) = Inr (''Speed set to '' @ str_int (max 0 (min 100 speed)) @ ''%'')
   \<and> pwm_a (snd (set_speed speed r)) = max 0 (min 100 speed)
   \<and> pwm_b (snd (set_speed speed r)) = max 0 (min 100 speed)"
  by (simp add: set_speed_def set_motor_speed_def ChangeDutyCycle_def Let_def)


subsection \<open>Spray gating\<close>

text \<open>
  C1 (as amended): in the plant-specific sprayer of cc.py every spray request first consults
  the stored analysis result. Without a stored result the answer is "No analysis result yet",
  with a stored severity None or Low it is "Spray not needed.", and in both cases the state is
  unchanged, so no pump thread is started; with a stored severity Medium or High the answer is
  "Pump activated!" and one pump thread is started. A pump thread is started if and only if
  the stored severity is Medium or High. The spray handler of raspi_smart_sprayer.py keeps no
  detection result: every request is answered "activated" and starts a pump thread.
\<close>

theorem cc_spray_gated:
  "(analysis_result s = None \<longrightarrow> cc_spray s = (''No analysis result yet'', s))
   \<and> (\<forall>r. analysis_result s = Some (r, SevNone) \<or> analysis_result s = Some (r, Low)
          \<longrightarrow> cc_spray s = (''Spray not needed.'', s))
   \<and> (\<forall>r. analysis_result s = Some (r, Medium) \<or> analysis_result s = Some (r, High)
          \<longrightarrow> cc_spray s = (''Pump activated!'', s\<lparr>pump_threads := pump_threads s @ [TpAssert]\<rparr>))
   \<and> ((pump_threads (snd (cc_spray s)) \<noteq> pump_threads s)
        = (\<exists>r. analysis_result s = Some (r, Medium) \<or> analysis_result s = Some (r, High)))
   \<and> fst (fst (spray body t)) = ''activated''
   \<and> threads (snd (spray body t))
       = threads t @ [(AtLock, case body of None \<Rightarrow> PUMP_DEFAULT_DURATION | Some d \<Rightarrow> d)]"
  by (cases "analysis_result s"; cases "snd (the (analysis_result s))")
     (auto simp: cc_spray_def spray_def Let_def split: prod.splits)

theorem cc_spray_gated_witness:
  "cc_spray no_result = (''No analysis result yet'', no_result)
   \<and> cc_spray (no_result\<lparr>analysis_result := Some (''Healthy (0.97)'', SevNone)\<rparr>)
       = (''Spray not needed.'', no_result\<lparr>analysis_result := Some (''Healthy (0.97)'', SevNone)\<rparr>)
   \<and> cc_spray (no_result\<lparr>analysis_result := Some (''Rust (0.40)'', Low)\<rparr>)
       = (''Spray not needed.'', no_result\<lparr>analysis_result := Some (''Rust (0.40)'', Low)\<rparr>)
   \<and> cc_spray (no_result\<lparr>analysis_result := Some (''Rust (0.70)'', Medium)\<rparr>)
       = (''Pump activated!'',
          no_result\<lparr>analysis_result := Some (''Rust (0.70)'', Medium), pump_threads := [TpAssert]\<rparr>)
   \<and> cc_spray (no_result\<lparr>analysis_result := Some (''Rust (0.90)'', High)\<rparr>)
       = (''Pump activated!'',
          no_result\<lparr>analysis_result := Some (''Rust (0.90)'', High), pump_threads := [TpAssert]\<rparr>)"
  using cc_spray_gated [of no_result]
    cc_spray_gated [of "no_result\<lparr>analysis_result := Some (''Healthy (0.97)'', SevNone)\<rparr>"]
    cc_spray_gated [of "no_result\<lparr>analysis_result := Some (''Rust (0.40)'', Low)\<rparr>"]
    cc_spray_gated [of "no_result\<lparr>analysis_result := Some (''Rust (0.70)'', Medium)\<rparr>"]
    cc_spray_gated [of "no_result\<lparr>analysis_result := Some (''Rust (0.90)'', High)\<rparr>"]
  by (simp add: no_result_def)

text \<open>
  The claim as stated fails on raspi_smart_sprayer.py: right after start-up, with no detection
  ever made, a spray request without a body is answered "activated", and two steps of its
  thread later the pump pin is at the active level.
\<close>

theorem spray_ungated_counterexample:
  "responses (run startup [Request None, Run 0, Run 0]) = [(''activated'', 5)]
   \<and> level (run startup [Request None, Run 0, Run 0]) = PUMP_ACTIVE_HIGH
   \<and> writes (run startup [Request None, Run 0, Run 0]) = [False, True]"
  by (simp add: run_def exec_def spray_def thread_step_def startup_def GPIO_output_def
      PUMP_ACTIVE_HIGH_def PUMP_DEFAULT_DURATION_def Let_def)

subsection \<open>The interlock\<close>

lemma count_pc_update:
  "i < length ts \<Longrightarrow>
   count_pc c (ts[i := (c', d)]) + (if fst (ts ! i) = c then 1 else 0)
     = count_pc c ts + (if c' = c then 1 else 0)"
proof (induction ts arbitrary: i)
  case Nil
  then show ?case by simp
next
  case (Cons t ts)
  show ?case
  proof (cases i)
    case 0
    then show ?thesis by (simp add: count_pc_def)
  next
    case (Suc j)
    with Cons.prems have "j < length ts" by simp
    from Cons.IH [OF this] Suc show ?thesis by (auto simp: count_pc_def split: if_splits)
  qed
qed

lemma count_pc_snoc: "count_pc c (ts @ [(c', d)]) = count_pc c ts + (if c' = c then 1 else 0)"
  by (simp add: count_pc_def)

lemma inv_startup: "inv startup"
  by (simp add: inv_def startup_def holding_def driving_def count_pc_def PUMP_ACTIVE_HIGH_def)

lemma inv_thread_step:
  assumes "inv s" and "thread_step i s = Some s'"
  shows "inv s'"
proof -
  from assms(2) have i: "i < length (threads s)"
    by (auto simp: thread_step_def split: if_splits)
  obtain c d where t: "threads s ! i = (c, d)" by (cases "threads s ! i")
  note upd = count_pc_update [OF i, of AtAssert] count_pc_update [OF i, of AtSleep]
    count_pc_update [OF i, of AtFinally] count_pc_update [OF i, of AtRelease]
  show ?thesis
  proof (cases c)
    case AtLock
    with assms t i upd [of AtAssert d] show ?thesis
      by (auto simp: thread_step_def inv_def holding_def driving_def split: if_splits)
  next
    case AtAssert
    with assms t i upd [of AtSleep d] show ?thesis
      by (auto simp: thread_step_def inv_def holding_def driving_def GPIO_output_def
          PUMP_ACTIVE_HIGH_def split: if_splits)
  next
    case AtSleep
    with assms t i upd [of AtFinally d] show ?thesis
      by (auto simp: thread_step_def inv_def holding_def driving_def split: if_splits)
  next
    case AtFinally
    with assms t i upd [of AtRelease d] show ?thesis
      by (auto simp: thread_step_def inv_def holding_def driving_def GPIO_output_def
          PUMP_ACTIVE_HIGH_def split: if_splits)
  next
    case AtRelease
    with assms t i upd [of Finished d] show ?thesis
      by (auto simp: thread_step_def inv_def holding_def driving_def split: if_splits)
  next
    case Finished
    with assms t i show ?thesis by (simp add: thread_step_def)
  qed
qed

lemma inv_exec: "inv s \<Longrightarrow> inv (exec s ev)"
proof (cases ev)
  case (Request body)
  assume "inv s"
  then show ?thesis using Request
    by (simp add: exec_def spray_def inv_def holding_def driving_def count_pc_snoc Let_def
        replicate_append_same)
next
  case (Run i)
  assume "inv s"
  then show ?thesis using Run inv_thread_step [of s i]
    by (cases "thread_step i s") (simp_all add: exec_def)
qed

lemma inv_run: "inv s \<Longrightarrow> inv (run s evs)"
  unfolding run_def by (induction evs arbitrary: s) (simp_all add: inv_exec)

lemma waiting_thread_step:
  "i < length (threads s) \<Longrightarrow> fst (threads s ! i) = AtLock
     \<Longrightarrow> (thread_step i s = None) = lock_held s"
  by (cases "threads s ! i") (simp add: thread_step_def)

text \<open>
  C2 (as amended): in raspi_smart_sprayer.py every spray request is answered "activated" and
  starts one drive thread; the drive sequences are serialised by a blocking lock. After any
  sequence of requests and thread steps from start-up, at most one thread holds the lock, at
  most one thread is inside its drive sequence, and the pin is at the active level exactly
  while one is. A thread that arrives while the lock is held is not refused: it cannot move
  as long as the lock is held and enters as soon as it is free.
\<close>

theorem spray_serialised:
  "holding (run startup evs) = (if lock_held (run startup evs) then 1 else 0)
   \<and> driving (run startup evs) = (if level (run startup evs) = PUMP_ACTIVE_HIGH then 1 else 0)
   \<and> driving (run startup evs) \<le> holding (run startup evs)
   \<and> map fst (responses (run startup evs))
       = replicate (length (responses (run startup evs))) ''activated''
   \<and> length (threads (run startup evs)) = length (responses (run startup evs))
   \<and> (i < length (threads s) \<and> fst (threads s ! i) = AtLock
        \<longrightarrow> (thread_step i s = None) = lock_held s)"
  using inv_run [OF inv_startup, of evs] waiting_thread_step [of i s]
  by (simp add: inv_def holding_def)

theorem spray_serialised_witness:
  "holding (run startup [Request (Some 5), Run 0, Run 0, Request (Some 5), Run 1]) = 1
   \<and> driving (run startup [Request (Some 5), Run 0, Run 0, Request (Some 5), Run 1]) = 1
   \<and> fst (threads (run startup [Request (Some 5), Run 0, Run 0, Request (Some 5), Run 1]) ! 1)
       = AtLock
   \<and> thread_step 1 (run startup [Request (Some 5), Run 0, Run 0, Request (Some 5), Run 1]) = None
   \<and> lock_held (run startup [Request (Some 5), Run 0, Run 0, Request (Some 5), Run 1])"
  using spray_serialised [of "[Request (Some 5), Run 0, Run 0, Request (Some 5), Run 1]" 1
      "run startup [Request (Some 5), Run 0, Run 0, Request (Some 5), Run 1]"]
  by (simp add: run_def exec_def spray_def thread_step_def startup_def GPIO_output_def
      PUMP_ACTIVE_HIGH_def Let_def)

text \<open>
  The claim as stated fails. In raspi_smart_sprayer.py a second request that arrives during
  the first drive is answered "activated" too and its thread waits at the lock. In cc.py two
  permitted requests start two threads that are both inside their drive sequence at once, and
  the first to finish switches the pump off under the other.
\<close>

theorem spray_busy_counterexample:
  "responses (run startup [Request (Some 5), Run 0, Run 0, Request (Some 5), Run 1])
     = [(''activated'', 5), (''activated'', 5)]
   \<and> threads (run startup [Request (Some 5), Run 0, Run 0, Request (Some 5), Run 1])
     = [(AtSleep, 5), (AtLock, 5)]
   \<and> fst (cc_spray (no_result\<lparr>analysis_result := Some (''Rust (0.90)'', High)\<rparr>))
     = ''Pump activated!''
   \<and> fst (cc_spray (snd (cc_spray (no_result\<lparr>analysis_result := Some (''Rust (0.90)'', High)\<rparr>))))
     = ''Pump activated!''
   \<and> pump_threads (snd (cc_spray (snd (cc_spray
        (no_result\<lparr>analysis_result := Some (''Rust (0.90)'', High)\<rparr>)))))
     = [TpAssert, TpAssert]
   \<and> tp_run ([TpAssert, TpAssert], idle_pump) [0, 1]
     = ([TpSleep, TpSleep], \<lparr>lock_held = False, level = True, writes = [False, True, True]\<rparr>)
   \<and> tp_run ([TpAssert, TpAssert], idle_pump) [0, 1, 0, 0]
     = ([TpDone, TpSleep],
        \<lparr>lock_held = False, level = False, writes = [False, True, True, False]\<rparr>)"
  by (simp add: run_def exec_def spray_def thread_step_def startup_def GPIO_output_def
      PUMP_ACTIVE_HIGH_def Let_def cc_spray_def no_result_def tp_run_def tp_step_def
      idle_pump_def)

subsection \<open>Deassertion after the hold\<close>

text \<open>
  C3 (as amended): for every call of \<open>activate_pump\<close> of raspi_smart_sprayer.py that enters
  the lock, and every way the hold can end (it returns, or it raises, as it does on a negative
  duration), the pump pin ends at the inactive level and the lock is released: with GPIO the
  levels written are the active and then the inactive one and the call returns True; without
  GPIO the pin is not touched. In cc.py, \<open>trigger_pump\<close> and the rover's spray handler leave
  the pin at the inactive level when the hold returns normally.
\<close>

theorem activate_pump_deasserts:
  assumes "\<not> lock_held p"
  shows "(\<exists>p'. activate_pump True duration env p = Some (Inr True, p')
            \<and> level p' = (\<not> PUMP_ACTIVE_HIGH) \<and> \<not> lock_held p'
            \<and> writes p' = writes p @ [PUMP_ACTIVE_HIGH, \<not> PUMP_ACTIVE_HIGH])
       \<and> (\<exists>r p'. activate_pump False duration env p = Some (r, p')
            \<and> level p' = level p \<and> \<not> lock_held p' \<and> writes p' = writes p)
       \<and> level (snd (trigger_pump True Returns p)) = (\<not> PUMP_ACTIVE_HIGH)
       \<and> level (snd (rover_spray Returns p)) = False"
  using assms
  by (simp add: activate_pump_def trigger_pump_def rover_spray_def GPIO_output_def
      time_sleep_def PUMP_ACTIVE_HIGH_def Let_def split: hold.split)

theorem activate_pump_deasserts_witness:
  "\<not> lock_held idle_pump
   \<and> activate_pump True (- 1) Returns idle_pump
       = Some (Inr True, \<lparr>lock_held = False, level = False, writes = [False, True, False]\<rparr>)
   \<and> activate_pump True 3 (Raises RuntimeError) idle_pump
       = Some (Inr True, \<lparr>lock_held = False, level = False, writes = [False, True, False]\<rparr>)
   \<and> activate_pump False 3 (Raises RuntimeError) idle_pump = Some (Inl RuntimeError, idle_pump)"
  using activate_pump_deasserts [of idle_pump "- 1" Returns]
    activate_pump_deasserts [of idle_pump 3 "Raises RuntimeError"]
  by (simp add: idle_pump_def activate_pump_def GPIO_output_def time_sleep_def PUMP_ACTIVE_HIGH_def)

text \<open>
  The claim as stated fails on cc.py: when the hold of \<open>trigger_pump\<close> or of the rover's
  spray handler raises, the exception leaves the function and the pin stays at the active
  level.
\<close>

theorem trigger_pump_counterexample:
  "trigger_pump True (Raises RuntimeError) idle_pump
     = (Inl RuntimeError, \<lparr>lock_held = False, level = True, writes = [False, True]\<rparr>)
   \<and> rover_spray (Raises RuntimeError) idle_pump
     = (Inl RuntimeError, \<lparr>lock_held = False, level = True, writes = [False, True]\<rparr>)"
  by (simp add: trigger_pump_def rover_spray_def idle_pump_def GPIO_output_def time_sleep_def
      PUMP_ACTIVE_HIGH_def)


subsection \<open>Severity thresholds of the model-backed detectors\<close>

text \<open>
  C4 (as amended): for a frame whose arg-max label is not "Healthy", \<open>keras_detector\<close> of
  raspi_smart_sprayer.py returns severity Low when the arg-max confidence is below 0.5,
  Medium when it lies in [0.5, 0.8) and High when it is at or above 0.8; \<open>analyze_frame\<close> of
  cc.py, with a loaded model, returns Low when the confidence is at most 0.5, Medium when it
  lies in (0.5, 0.8] and High when it is above 0.8.
\<close>

theorem severity_thresholds:
  "(predict f = Inr probs \<and> probs \<noteq> []
      \<and> (if argmax probs < length CLASS_NAMES then CLASS_NAMES ! argmax probs
          else ''Class '' @ str_nat (argmax probs)) \<noteq> ''Healthy''
     \<longrightarrow> (\<exists>label. keras_detector predict f
            = Inr (label, probs ! argmax probs,
                   if probs ! argmax probs < 0.5 then Low
                   else if probs ! argmax probs < 0.8 then Medium else High)))
   \<and> (map_of PLANT_MODELS pl = Some (path, classes) \<and> cache pl = Some (Some predict)
      \<and> predict f = Inr probs \<and> probs \<noteq> [] \<and> argmax probs < length classes
      \<and> classes ! argmax probs \<noteq> ''Healthy''
     \<longrightarrow> (\<exists>result. fst (analyze_frame load_model fmt f pl cache)
            = Inr (result,
                   if probs ! argmax probs \<le> 0.5 then Low
                   else if probs ! argmax probs \<le> 0.8 then Medium else High)))"
  by (auto simp: keras_detector_def analyze_frame_def load_plant_model_def np_argmax_def Let_def)

theorem severity_thresholds_witness:
  "keras_detector (always [0.25, 0.5, 0.25]) [[(0, 0, 0)]] = Inr (''Disease_A'', 0.5, Medium)
   \<and> keras_detector (always [0.1, 0.1, 0.8]) [[(0, 0, 0)]] = Inr (''Disease_B'', 0.8, High)
   \<and> keras_detector (always [0.3, 0.4, 0.3]) [[(0, 0, 0)]] = Inr (''Disease_A'', 0.4, Low)
   \<and> (\<exists>result. fst (analyze_frame (\<lambda>path. Inr (always [0.05, 0.9, 0.05])) (\<lambda>c. ''0.90'')
          [[(0, 0, 0)]] ''wheat'' [''wheat'' \<mapsto> Some (always [0.05, 0.9, 0.05])])
        = Inr (result, High))"
  using severity_thresholds [of "always [0.25, 0.5, 0.25]" "[[(0, 0, 0)]]" "[0.25, 0.5, 0.25]"]
    severity_thresholds [of "always [0.1, 0.1, 0.8]" "[[(0, 0, 0)]]" "[0.1, 0.1, 0.8]"]
    severity_thresholds [of "always [0.3, 0.4, 0.3]" "[[(0, 0, 0)]]" "[0.3, 0.4, 0.3]"]
    severity_thresholds [of "always [0.05, 0.9, 0.05]" "[[(0, 0, 0)]]" "[0.05, 0.9, 0.05]"
      "''wheat''" "''models/wheat_model.h5''" "[''Healthy'', ''Rust'', ''Blight'']"
      "[''wheat'' \<mapsto> Some (always [0.05, 0.9, 0.05])]"
      "\<lambda>path. Inr (always [0.05, 0.9, 0.05])" "\<lambda>c. ''0.90''"]
  by (simp add: always_def CLASS_NAMES_def PLANT_MODELS_def keras_detector_def np_argmax_def)

text \<open>
  The claim as stated fails on \<open>analyze_frame\<close> of cc.py: for the wheat model, an arg-max
  class "Rust" with confidence exactly 0.5 yields Low, and with confidence exactly 0.8 yields
  Medium.
\<close>

theorem analyze_frame_boundary_counterexample:
  "fst (analyze_frame (\<lambda>path. Inr (always [0.25, 0.5, 0.25])) (\<lambda>c. ''0.50'')
          [[(0, 0, 0)]] ''wheat'' Map.empty)
     = Inr (''Rust (0.50)'', Low)
   \<and> fst (analyze_frame (\<lambda>path. Inr (always [0.1, 0.8, 0.1])) (\<lambda>c. ''0.80'')
          [[(0, 0, 0)]] ''wheat'' Map.empty)
     = Inr (''Rust (0.80)'', Medium)"
  by (simp add: analyze_frame_def load_plant_model_def PLANT_MODELS_def always_def np_argmax_def
      Let_def)

subsection \<open>Detection without a frame\<close>

lemma analyze_frame_not_no_frame:
  "fst (analyze_frame load_model fmt f pl cache) \<noteq> Inr no_frame_answer"
  by (auto simp: analyze_frame_def no_frame_answer_def Let_def
      split: prod.splits option.splits sum.splits if_splits)

text \<open>
  C5: when no frame has ever been stored, the detect handler of raspi_smart_sprayer.py
  answers with the no-frame error and runs no detector, whatever model is loaded; the check
  handler of cc.py answers "No frame available" and leaves the whole state, the model cache
  included, as it was. That answer is none that \<open>analyze_frame\<close> can produce.
\<close>

theorem detect_without_frame:
  "detect cvtColor keras_model None = (Inr NoFrame, [])
   \<and> check load_model fmt (s\<lparr>current_frame := None\<rparr>)
       = (Inr no_frame_answer, s\<lparr>current_frame := None\<rparr>)
   \<and> fst (analyze_frame load_model fmt f pl cache) \<noteq> Inr no_frame_answer"
  using analyze_frame_not_no_frame [of load_model fmt f pl cache]
  by (simp add: detect_def check_def split: option.split)

subsection \<open>Fallback on an inference failure\<close>

text \<open>
  C6 (as amended): in raspi_smart_sprayer.py, for every detect call on a frame with at least
  one pixel in which the model-backed detector raises, the failure is recorded and the call
  returns the detection that \<open>placeholder_detector\<close> produces for that same frame; no error
  reaches the caller. In cc.py, \<open>analyze_frame\<close> has no fallback for an inference failure:
  an exception of the model's prediction is the result of the call.
\<close>

theorem detect_falls_back:
  assumes "shape0 f * shape1 f \<noteq> 0" and "keras_detector predict f = Inl e"
  shows "(\<exists>label conf sev. placeholder_detector cvtColor f = Inr (label, conf, sev)
           \<and> detect cvtColor (Some predict) (Some f)
               = (Inr (Detected label conf sev ''Used placeholder detector.''),
                  [KerasRan, KerasFailed e, PlaceholderRan]))
       \<and> (map_of PLANT_MODELS pl = Some (path, classes) \<and> cache pl = Some (Some predict')
            \<and> predict' f = Inl e'
          \<longrightarrow> fst (analyze_frame load_model fmt f pl cache) = Inl e')"
  using assms
  by (auto simp: detect_def run_placeholder_def placeholder_detector_def Let_def
      analyze_frame_def load_plant_model_def)

theorem detect_falls_back_witness:
  "shape0 [[(10, 100, 100)]] * shape1 [[(10, 100, 100)]] \<noteq> 0
   \<and> keras_detector (\<lambda>f. Inl BackendError) [[(10, 100, 100)]] = Inl BackendError
   \<and> detect (\<lambda>p. p) (Some (\<lambda>f. Inl BackendError)) (Some [[(10, 100, 100)]])
       = (Inr (Detected ''Severe Infection'' 0.99 High ''Used placeholder detector.''),
          [KerasRan, KerasFailed BackendError, PlaceholderRan])
   \<and> fst (analyze_frame (\<lambda>path. Inl RuntimeError) (\<lambda>c. ''0.00'') [[(10, 100, 100)]] ''rice''
          [''rice'' \<mapsto> Some (\<lambda>f. Inl BackendError)]) = Inl BackendError"
  using detect_falls_back [of "[[(10, 100, 100)]]" "\<lambda>f. Inl BackendError" BackendError "\<lambda>p. p"
      "''rice''" "''models/rice_model.h5''" "[''Healthy'', ''Brown Spot'', ''Leaf Blast'']"
      "[''rice'' \<mapsto> Some (\<lambda>f. Inl BackendError)]" "\<lambda>f. Inl BackendError" BackendError
      "\<lambda>path. Inl RuntimeError" "\<lambda>c. ''0.00''"]
  by (simp add: shape0_def shape1_def keras_detector_def placeholder_detector_def cover_def
      band_mask_def count_nonzero_def lower_def upper_def detect_def run_placeholder_def
      PLANT_MODELS_def)

text \<open>
  The claim as stated fails on cc.py: with a wheat model that loads and then raises at
  prediction time, the check handler ends with that error.
\<close>

theorem check_inference_error_counterexample:
  "fst (check (\<lambda>path. Inr (\<lambda>f. Inl BackendError)) (\<lambda>c. ''0.00'')
         (no_result\<lparr>current_frame := Some [[(10, 100, 100)]]\<rparr>)) = Inl BackendError"
  by (simp add: check_def analyze_frame_def load_plant_model_def PLANT_MODELS_def no_result_def
      Let_def)

subsection \<open>The heuristic detector\<close>

text \<open>
  C7: the heuristic detector maps the band coverage of a frame with at least one pixel
  through the breakpoints 0.003, 0.02 and 0.08 to the severities None, Low, Medium and High;
  in particular a coverage of 9% yields High and a coverage of 0.1% yields None.
\<close>

theorem placeholder_detector_breakpoints:
  assumes "shape0 f * shape1 f \<noteq> 0"
  shows "(cover cvtColor f = 0.09
            \<longrightarrow> placeholder_detector cvtColor f = Inr (''Severe Infection'', 0.45, High))
       \<and> (cover cvtColor f = 0.001
            \<longrightarrow> placeholder_detector cvtColor f = Inr (''Healthy'', 0.999, SevNone))
       \<and> (\<exists>label conf. placeholder_detector cvtColor f
            = Inr (label, conf,
                   if cover cvtColor f < 0.003 then SevNone
                   else if cover cvtColor f < 0.02 then Low
                   else if cover cvtColor f < 0.08 then Medium else High))"
  using assms by (simp add: placeholder_detector_def Let_def)

theorem placeholder_detector_breakpoints_witness:
  "shape0 [replicate 9 (10, 100, 100) @ replicate 91 (0, 0, 0)]
     * shape1 [replicate 9 (10, 100, 100) @ replicate 91 (0, 0, 0)] \<noteq> 0
   \<and> cover (\<lambda>p. p) [replicate 9 (10, 100, 100) @ replicate 91 (0, 0, 0)] = 0.09
   \<and> placeholder_detector (\<lambda>p. p) [replicate 9 (10, 100, 100) @ replicate 91 (0, 0, 0)]
       = Inr (''Severe Infection'', 0.45, High)
   \<and> cover (\<lambda>p. p) [replicate 1 (10, 100, 100) @ replicate 999 (0, 0, 0)] = 0.001
   \<and> placeholder_detector (\<lambda>p. p) [replicate 1 (10, 100, 100) @ replicate 999 (0, 0, 0)]
       = Inr (''Healthy'', 0.999, SevNone)"
  using placeholder_detector_breakpoints
      [of "[replicate 9 (10, 100, 100) @ replicate 91 (0, 0, 0)]" "\<lambda>p. p"]
    placeholder_detector_breakpoints
      [of "[replicate 1 (10, 100, 100) @ replicate 999 (0, 0, 0)]" "\<lambda>p. p"]
  by (simp add: shape0_def shape1_def cover_def band_mask_def count_nonzero_def lower_def
      upper_def)

text \<open>
  C8 (as amended): for every frame with at least one pixel the synthetic confidence of the
  heuristic detector lies between 0 and 1; it is strictly below 1.0 exactly when at least one
  pixel lies in the band, and at most 0.99 whenever the severity is not None. A frame with no
  pixel in the band is "Healthy" with confidence exactly 1.0.
\<close>

theorem placeholder_confidence_bound:
  assumes "shape0 f * shape1 f \<noteq> 0"
  shows "\<exists>label conf sev. placeholder_detector cvtColor f = Inr (label, conf, sev)
           \<and> 0 \<le> conf \<and> conf \<le> 1
           \<and> (conf < 1) = (0 < count_nonzero (band_mask cvtColor f))
           \<and> (sev = SevNone \<or> conf \<le> 0.99)"
proof -
  let ?n = "count_nonzero (band_mask cvtColor f)"
  let ?c = "cover cvtColor f"
  have c0: "0 \<le> ?c" by (simp add: cover_def)
  have cz: "(?c = 0) = (?n = 0)" using assms by (simp add: cover_def)
  have cp: "(0 < ?c) = (0 < ?n)" using c0 cz by linarith
  show ?thesis
    using assms c0 cp by (auto simp: placeholder_detector_def Let_def min_def)
qed

theorem placeholder_confidence_bound_witness:
  "shape0 [[(10, 100, 100), (0, 0, 0)]] * shape1 [[(10, 100, 100), (0, 0, 0)]] \<noteq> 0
   \<and> placeholder_detector (\<lambda>p. p) [[(10, 100, 100), (0, 0, 0)]]
       = Inr (''Severe Infection'', 0.99, High)"
  using placeholder_confidence_bound [of "[[(10, 100, 100), (0, 0, 0)]]" "\<lambda>p. p"]
  by (simp add: shape0_def shape1_def placeholder_detector_def cover_def band_mask_def
      count_nonzero_def lower_def upper_def)

text \<open>
  The claim as stated fails on a frame with no pixel in the band (coverage 0): its confidence
  is 1.0, not below.
\<close>

theorem placeholder_confidence_counterexample:
  "placeholder_detector (\<lambda>p. p) [[(0, 0, 0)]] = Inr (''Healthy'', 1, SevNone)
   \<and> \<not> (case placeholder_detector (\<lambda>p. p) [[(0, 0, 0)]] of
          Inl e \<Rightarrow> True | Inr (label, conf, sev) \<Rightarrow> conf < 1)"
  by (simp add: placeholder_detector_def cover_def shape0_def shape1_def band_mask_def
      count_nonzero_def lower_def upper_def)

subsection \<open>A failed check keeps the stored result\<close>

text \<open>
  C10: when the check handler of cc.py meets the no-frame condition (no plant selected, an
  empty plant name, or no frame captured yet), it answers "No frame available" and leaves the
  state unchanged; the stored analysis result is the previous one, and a following spray
  request is decided exactly as it would have been before the check.
\<close>

theorem check_no_frame_keeps_result:
  assumes "plant s = None \<or> plant s = Some [] \<or> current_frame s = None"
  shows "check load_model fmt s = (Inr no_frame_answer, s)
       \<and> analysis_result (snd (check load_model fmt s)) = analysis_result s
       \<and> cc_spray (snd (check load_model fmt s)) = cc_spray s"
  using assms by (auto simp: check_def split: option.split)

theorem check_no_frame_keeps_result_witness:
  "current_frame (no_result\<lparr>analysis_result := Some (''Rust (0.90)'', High)\<rparr>) = None
   \<and> check (\<lambda>path. Inl RuntimeError) (\<lambda>c. ''0.00'')
       (no_result\<lparr>analysis_result := Some (''Rust (0.90)'', High)\<rparr>)
     = (Inr no_frame_answer, no_result\<lparr>analysis_result := Some (''Rust (0.90)'', High)\<rparr>)
   \<and> fst (cc_spray (snd (check (\<lambda>path. Inl RuntimeError) (\<lambda>c. ''0.00'')
       (no_result\<lparr>analysis_result := Some (''Rust (0.90)'', High)\<rparr>)))) = ''Pump activated!''"
  using check_no_frame_keeps_result
    [of "no_result\<lparr>analysis_result := Some (''Rust (0.90)'', High)\<rparr>"
        "\<lambda>path. Inl RuntimeError" "\<lambda>c. ''0.00''"]
  by (simp add: no_result_def cc_spray_def)

end
